theory Spec2Isabelle
  imports Main "HOL-Library.Word" "HOL-Library.Sublist"
begin

section \<open>The Wayland EGL context provider (GLContextEGLWayland.cpp)\<close>

text \<open>
  The file under verification is the Wayland flavour of the EGL context of the GS
  OpenGL renderer. Everything it does is a call into a facility outside of it: the
  dynamic loader (\<open>dlopen\<close>, \<open>dlsym\<close>, \<open>dlclose\<close>), the three functions resolved from
  \<open>libwayland-egl.so.1\<close>, the EGL entry points, the error object and the console.
  The embedding therefore threads two things through every member function:
  the object (a record of its data members) and a trace, the list of external calls
  made so far, oldest first, each with its arguments and its result.
  What an external call returns is given by an environment whose answers may depend
  on the whole trace up to that call, so that every deterministic behaviour of the
  outside world is covered.
\<close>

subsection \<open>Data\<close>

text \<open>
  A pointer or an opaque handle is an address; \<open>0\<close> is \<open>nullptr\<close> (and with it
  \<open>EGL_NO_DISPLAY\<close> and \<open>EGL_NO_SURFACE\<close>, which EGL defines as null handles).
  \<open>u32\<close> and \<open>EGLint\<close> are 32-bit machine words.
\<close>

type_synonym ptr = nat
type_synonym u32 = "32 word"
type_synonym EGLint = "32 word"

text \<open>\<open>Version\<close> is declared by the base context; here it is only passed along.\<close>

type_synonym Version = nat

definition EGL_NO_DISPLAY :: ptr where
  "EGL_NO_DISPLAY = 0"

definition EGL_NO_SURFACE :: ptr where
  "EGL_NO_SURFACE = 0"

text \<open>The platform constant of the EGL headers handed to \<open>eglGetPlatformDisplay\<close>.\<close>

definition EGL_PLATFORM_WAYLAND_KHR :: nat where
  "EGL_PLATFORM_WAYLAND_KHR = 0x31D8"

definition WAYLAND_EGL_MODNAME :: string where
  "WAYLAND_EGL_MODNAME = ''libwayland-egl.so.1''"

datatype dlflag = RTLD_NOW | RTLD_GLOBAL

text \<open>
  Modelled from the spec: \<open>WindowInfo\<close> is declared in a header that is not among the
  sources. These are the fields this file reads: the display-server connection, the
  native surface handle, and the surface size in pixels.
\<close>

record WindowInfo =
  display_connection :: ptr
  window_handle :: ptr
  surface_width :: u32
  surface_height :: u32

text \<open>
  Modelled from the spec: the two class declarations are in headers that are not among
  the sources. The first record has the data members of the base class \<open>GLContextEGL\<close>
  that this file reads or writes (window info, display, surface, context, negotiated
  version, surfaceless flag), the second the members the derived class adds: the shim
  window, the library handle and the three resolved function pointers. The record
  extension mirrors the inheritance.
\<close>

record GLContextEGL =
  m_wi :: WindowInfo
  m_display :: ptr
  m_surface :: ptr
  m_context :: ptr
  m_version :: Version
  m_supports_surfaceless :: bool

record GLContextEGLWayland = GLContextEGL +
  m_wl_window :: ptr
  m_wl_module :: ptr
  m_wl_egl_window_create :: ptr
  m_wl_egl_window_destroy :: ptr
  m_wl_egl_window_resize :: ptr

subsection \<open>External calls and the trace\<close>

text \<open>
  One constructor per external routine the file calls. A call through one of the three
  resolved function pointers records the pointer it went through, so that a call
  through a null pointer is visible in the trace. The error-object routines record
  the \<open>Error*\<close> they were handed; the formatting routines record the format string and
  the arguments as the source passes them. Every argument is recorded as the value the
  caller holds: the parameter types of the shim functions are declared in the header,
  which is not among the sources, so a conversion at the call is not modelled.
\<close>

datatype event =
    Dlopen string "dlflag list" ptr
  | Dlsym ptr string ptr
  | Dlclose ptr
  | WlEglWindowCreate ptr ptr u32 u32 ptr
  | WlEglWindowDestroy ptr ptr
  | WlEglWindowResize ptr ptr u32 u32 int int
  | EglGetPlatformDisplay nat ptr ptr ptr
  | EglCreatePlatformWindowSurface ptr ptr ptr ptr ptr
  | EglGetError EGLint
  | ErrorSetStringView ptr string
  | ErrorSetStringFmt ptr string "EGLint list"
  | ErrorSetExtensionMissing ptr string string
  | ConsoleError string "string list"
  | ConsoleWriteLn string
  | BaseResizeSurface u32 u32
  | BaseCreateContextAndSurface ptr Version ptr bool

type_synonym trace = "event list"

text \<open>
  The answers of the outside world. Each takes the trace at the moment of the call
  and the arguments of the call. The last four fields are decisions of the base
  class, whose code is not part of this file.
\<close>

record env =
  ext_dlopen :: "trace \<Rightarrow> string \<Rightarrow> dlflag list \<Rightarrow> ptr"
  ext_dlsym :: "trace \<Rightarrow> ptr \<Rightarrow> string \<Rightarrow> ptr"
  ext_wl_egl_window_create :: "trace \<Rightarrow> ptr \<Rightarrow> ptr \<Rightarrow> u32 \<Rightarrow> u32 \<Rightarrow> ptr"
  ext_eglGetPlatformDisplay :: "trace \<Rightarrow> nat \<Rightarrow> ptr \<Rightarrow> ptr \<Rightarrow> ptr"
  ext_eglCreatePlatformWindowSurface :: "trace \<Rightarrow> ptr \<Rightarrow> ptr \<Rightarrow> ptr \<Rightarrow> ptr \<Rightarrow> ptr"
  ext_eglGetError :: "trace \<Rightarrow> EGLint"
  ext_extensions :: "trace \<Rightarrow> string list"
  ext_base_resize :: "trace \<Rightarrow> WindowInfo \<Rightarrow> u32 \<Rightarrow> u32 \<Rightarrow> WindowInfo"
  ext_base_display_attribs :: "trace \<Rightarrow> ptr"
  ext_base_select_version :: "trace \<Rightarrow> Version list \<Rightarrow> Version option"
  ext_base_create_context :: "trace \<Rightarrow> (ptr \<times> ptr \<times> ptr \<times> ptr) option"

subsection \<open>Construction and destruction\<close>

text \<open>
  Modelled from the spec: the member initialisers are in the header, which is not among
  the sources. A new provider holds no shim window and no library handle (both null),
  and the base handles start out null as well. The three function pointers have no
  initial value that the sources show, so the constructor takes whatever they hold as
  the parameter \<open>fns\<close>. The constructor itself only forwards the window info to the
  base class.
\<close>

definition GLContextEGLWayland_ctor :: "WindowInfo \<Rightarrow> ptr \<times> ptr \<times> ptr \<Rightarrow> GLContextEGLWayland" where
  "GLContextEGLWayland_ctor wi fns =
     \<lparr> m_wi = wi, m_display = 0, m_surface = 0, m_context = 0, m_version = 0,
       m_supports_surfaceless = False,
       m_wl_window = 0, m_wl_module = 0,
       m_wl_egl_window_create = fst fns,
       m_wl_egl_window_destroy = fst (snd fns),
       m_wl_egl_window_resize = snd (snd fns) \<rparr>"

text \<open>
  The body of the destructor: the trace after it has run. (The destructor of the base
  class runs after this body; it is outside this file.)
\<close>

definition GLContextEGLWayland_dtor :: "GLContextEGLWayland \<Rightarrow> trace \<Rightarrow> trace" where
  "GLContextEGLWayland_dtor p tr =
     (let tr1 = (if m_wl_window p \<noteq> 0
                 then tr @ [WlEglWindowDestroy (m_wl_egl_window_destroy p) (m_wl_window p)]
                 else tr)
      in if m_wl_module p \<noteq> 0 then tr1 @ [Dlclose (m_wl_module p)] else tr1)"

subsection \<open>LoadModule\<close>

definition LoadModule :: "env \<Rightarrow> GLContextEGLWayland \<Rightarrow> trace \<Rightarrow> bool \<times> GLContextEGLWayland \<times> trace" where
  "LoadModule e p tr =
     (let h = ext_dlopen e tr WAYLAND_EGL_MODNAME [RTLD_NOW, RTLD_GLOBAL];
          tr1 = tr @ [Dlopen WAYLAND_EGL_MODNAME [RTLD_NOW, RTLD_GLOBAL] h];
          p1 = p\<lparr>m_wl_module := h\<rparr>
      in if h = 0
         then (False, p1, tr1 @ [ConsoleError ''Failed to load %s.'' [WAYLAND_EGL_MODNAME]])
         else
           let c = ext_dlsym e tr1 h ''wl_egl_window_create'';
               tr2 = tr1 @ [Dlsym h ''wl_egl_window_create'' c];
               d = ext_dlsym e tr2 h ''wl_egl_window_destroy'';
               tr3 = tr2 @ [Dlsym h ''wl_egl_window_destroy'' d];
               r = ext_dlsym e tr3 h ''wl_egl_window_resize'';
               tr4 = tr3 @ [Dlsym h ''wl_egl_window_resize'' r];
               p2 = p1\<lparr>m_wl_egl_window_create := c, m_wl_egl_window_destroy := d,
                       m_wl_egl_window_resize := r\<rparr>
           in if c = 0 \<or> d = 0 \<or> r = 0
              then (False, p2, tr4 @ [ConsoleError ''Failed to load one or more functions from %s.''
                                        [WAYLAND_EGL_MODNAME]])
              else (True, p2, tr4))"

subsection \<open>ResizeSurface\<close>

text \<open>
  Modelled from the spec: \<open>GLContextEGL::ResizeSurface\<close>, the generic resize of the base
  class, is not part of the sources at hand. The spec says it updates the cached surface
  dimensions; the call is recorded with its arguments and the new window info is left
  to the environment.
\<close>

definition GLContextEGL_ResizeSurface ::
  "env \<Rightarrow> u32 \<Rightarrow> u32 \<Rightarrow> GLContextEGLWayland \<Rightarrow> trace \<Rightarrow> GLContextEGLWayland \<times> trace" where
  "GLContextEGL_ResizeSurface e new_surface_width new_surface_height p tr =
     (p\<lparr>m_wi := ext_base_resize e tr (m_wi p) new_surface_width new_surface_height\<rparr>,
      tr @ [BaseResizeSurface new_surface_width new_surface_height])"

definition ResizeSurface ::
  "env \<Rightarrow> u32 \<Rightarrow> u32 \<Rightarrow> GLContextEGLWayland \<Rightarrow> trace \<Rightarrow> GLContextEGLWayland \<times> trace" where
  "ResizeSurface e new_surface_width new_surface_height p tr =
     (let tr1 = (if m_wl_window p \<noteq> 0
                 then tr @ [WlEglWindowResize (m_wl_egl_window_resize p) (m_wl_window p)
                              new_surface_width new_surface_height 0 0]
                 else tr)
      in GLContextEGL_ResizeSurface e new_surface_width new_surface_height p tr1)"

subsection \<open>GetPlatformDisplay\<close>

text \<open>
  Modelled from the spec: \<open>CheckExtension\<close> is a helper of the base class that is not part
  of the sources at hand. The spec says it checks that the platform layer advertises at
  least one of the two names and fails with a descriptive error otherwise; the error it
  sets is recorded as \<open>ErrorSetExtensionMissing\<close> with the two names.
\<close>

definition CheckExtension :: "env \<Rightarrow> string \<Rightarrow> string \<Rightarrow> ptr \<Rightarrow> trace \<Rightarrow> bool \<times> trace" where
  "CheckExtension e name alt_name error tr =
     (if name \<in> set (ext_extensions e tr) \<or> alt_name \<in> set (ext_extensions e tr)
      then (True, tr)
      else (False, tr @ [ErrorSetExtensionMissing error name alt_name]))"

definition GetPlatformDisplay ::
  "env \<Rightarrow> ptr \<Rightarrow> ptr \<Rightarrow> GLContextEGLWayland \<Rightarrow> trace \<Rightarrow> ptr \<times> GLContextEGLWayland \<times> trace" where
  "GetPlatformDisplay e attribs error p tr =
     (case CheckExtension e ''EGL_KHR_platform_wayland'' ''EGL_EXT_platform_wayland'' error tr of
        (False, tr1) \<Rightarrow> (EGL_NO_DISPLAY, p, tr1)
      | (True, tr1) \<Rightarrow>
          let dpy = ext_eglGetPlatformDisplay e tr1 EGL_PLATFORM_WAYLAND_KHR
                      (display_connection (m_wi p)) attribs;
              tr2 = tr1 @ [EglGetPlatformDisplay EGL_PLATFORM_WAYLAND_KHR
                             (display_connection (m_wi p)) attribs dpy]
          in if dpy = EGL_NO_DISPLAY
             then
               let err = ext_eglGetError e tr2;
                   tr3 = tr2 @ [EglGetError err]
               in (dpy, p, tr3 @ [ErrorSetStringFmt error
                      ''eglGetPlatformDisplay() for Wayland failed: {} (0x{:X})'' [err, err]])
             else (dpy, p, tr2))"

subsection \<open>CreatePlatformSurface\<close>

text \<open>The first block of the function: an existing shim window is destroyed and the
  stored handle cleared.\<close>

definition destroy_existing_window :: "GLContextEGLWayland \<Rightarrow> trace \<Rightarrow> GLContextEGLWayland \<times> trace" where
  "destroy_existing_window p tr =
     (if m_wl_window p \<noteq> 0
      then (p\<lparr>m_wl_window := 0\<rparr>,
            tr @ [WlEglWindowDestroy (m_wl_egl_window_destroy p) (m_wl_window p)])
      else (p, tr))"

definition CreatePlatformSurface ::
  "env \<Rightarrow> ptr \<Rightarrow> ptr \<Rightarrow> ptr \<Rightarrow> GLContextEGLWayland \<Rightarrow> trace \<Rightarrow> ptr \<times> GLContextEGLWayland \<times> trace" where
  "CreatePlatformSurface e config attribs error p tr =
     (case destroy_existing_window p tr of
        (p1, tr1) \<Rightarrow>
          let w = ext_wl_egl_window_create e tr1 (m_wl_egl_window_create p1)
                    (window_handle (m_wi p1)) (surface_width (m_wi p1)) (surface_height (m_wi p1));
              tr2 = tr1 @ [WlEglWindowCreate (m_wl_egl_window_create p1)
                             (window_handle (m_wi p1)) (surface_width (m_wi p1))
                             (surface_height (m_wi p1)) w];
              p2 = p1\<lparr>m_wl_window := w\<rparr>
          in if w = 0
             then (EGL_NO_SURFACE, p2,
                   tr2 @ [ErrorSetStringView error ''wl_egl_window_create() failed''])
             else
               let surface = ext_eglCreatePlatformWindowSurface e tr2 (m_display p2) config w attribs;
                   tr3 = tr2 @ [EglCreatePlatformWindowSurface (m_display p2) config w attribs surface]
               in if surface = EGL_NO_SURFACE
                  then
                    let err = ext_eglGetError e tr3;
                        tr4 = tr3 @ [EglGetError err];
                        tr5 = tr4 @ [ErrorSetStringFmt error
                                 ''eglCreatePlatformWindowSurface() for Wayland failed: {} (0x{:X})''
                                 [err, err]];
                        tr6 = tr5 @ [WlEglWindowDestroy (m_wl_egl_window_destroy p2) w]
                    in (surface, p2\<lparr>m_wl_window := 0\<rparr>, tr6)
                  else (surface, p2, tr3))"

subsection \<open>The base collaborator\<close>

text \<open>
  Modelled from the spec: \<open>GLContextEGL::CreateContextAndSurface\<close> is not part of the
  sources at hand. The spec describes it as the lower-level context-and-surface creation
  of the base class, which takes the version, the context to share with and the
  make-current flag, works on the display the object already holds, and obtains the
  drawable through the \<open>CreatePlatformSurface\<close> hook. Whether a context can be created,
  and the configuration, attributes and error object handed to the hook, are the
  environment's.
\<close>

definition CreateContextAndSurface ::
  "env \<Rightarrow> Version \<Rightarrow> ptr \<Rightarrow> bool \<Rightarrow> GLContextEGLWayland \<Rightarrow> trace \<Rightarrow> bool \<times> GLContextEGLWayland \<times> trace" where
  "CreateContextAndSurface e version share_context make_current p tr =
     (let tr1 = tr @ [BaseCreateContextAndSurface (m_display p) version share_context make_current]
      in case ext_base_create_context e tr1 of
           None \<Rightarrow> (False, p, tr1)
         | Some (config, ctx, attribs, error) \<Rightarrow>
             (case CreatePlatformSurface e config attribs error p tr1 of
                (surface, p1, tr2) \<Rightarrow>
                  if surface = EGL_NO_SURFACE then (False, p1, tr2)
                  else (True, p1\<lparr>m_surface := surface, m_context := ctx, m_version := version\<rparr>, tr2)))"

text \<open>
  Modelled from the spec: \<open>GLContextEGL::Initialize\<close> is not part of the sources at hand.
  The spec describes it as the generic initialisation that calls back into this file
  twice, once to obtain the platform display and once to create the platform surface.
  Which of the acceptable versions is taken is the environment's.
\<close>

definition Initialize ::
  "env \<Rightarrow> Version list \<Rightarrow> ptr \<Rightarrow> GLContextEGLWayland \<Rightarrow> trace \<Rightarrow> bool \<times> GLContextEGLWayland \<times> trace" where
  "Initialize e versions_to_try error p tr =
     (case GetPlatformDisplay e (ext_base_display_attribs e tr) error p tr of
        (dpy, p1, tr1) \<Rightarrow>
          if dpy = EGL_NO_DISPLAY then (False, p1, tr1)
          else
            (case ext_base_select_version e tr1 versions_to_try of
               None \<Rightarrow> (False, p1\<lparr>m_display := dpy\<rparr>, tr1)
             | Some v \<Rightarrow> CreateContextAndSurface e v 0 True (p1\<lparr>m_display := dpy\<rparr>) tr1))"

subsection \<open>The factories\<close>

text \<open>
  Both factories hold the new object in a \<open>std::unique_ptr\<close>; returning \<open>nullptr\<close> lets
  it go out of scope, which runs the destructor. \<open>||\<close> evaluates its right operand only
  when \<open>LoadModule\<close> has succeeded.
\<close>

definition Create ::
  "env \<Rightarrow> WindowInfo \<Rightarrow> ptr \<times> ptr \<times> ptr \<Rightarrow> Version list \<Rightarrow> ptr \<Rightarrow> trace
     \<Rightarrow> GLContextEGLWayland option \<times> trace" where
  "Create e wi fns versions_to_try error tr =
     (case LoadModule e (GLContextEGLWayland_ctor wi fns) tr of
        (False, c1, tr1) \<Rightarrow> (None, GLContextEGLWayland_dtor c1 tr1)
      | (True, c1, tr1) \<Rightarrow>
          (case Initialize e versions_to_try error c1 tr1 of
             (False, c2, tr2) \<Rightarrow> (None, GLContextEGLWayland_dtor c2 tr2)
           | (True, c2, tr2) \<Rightarrow> (Some c2, tr2 @ [ConsoleWriteLn ''EGL Platform: Wayland''])))"

definition shared_context_init :: "GLContextEGLWayland \<Rightarrow> WindowInfo \<Rightarrow> ptr \<times> ptr \<times> ptr \<Rightarrow> GLContextEGLWayland" where
  "shared_context_init this wi fns =
     (GLContextEGLWayland_ctor wi fns)
       \<lparr>m_display := m_display this, m_supports_surfaceless := m_supports_surfaceless this\<rparr>"

definition CreateSharedContext ::
  "env \<Rightarrow> GLContextEGLWayland \<Rightarrow> WindowInfo \<Rightarrow> ptr \<times> ptr \<times> ptr \<Rightarrow> trace
     \<Rightarrow> GLContextEGLWayland option \<times> trace" where
  "CreateSharedContext e this wi fns tr =
     (case LoadModule e (shared_context_init this wi fns) tr of
        (False, c1, tr1) \<Rightarrow> (None, GLContextEGLWayland_dtor c1 tr1)
      | (True, c1, tr1) \<Rightarrow>
          (case CreateContextAndSurface e (m_version this) (m_context this) False c1 tr1 of
             (False, c2, tr2) \<Rightarrow> (None, GLContextEGLWayland_dtor c2 tr2)
           | (True, c2, tr2) \<Rightarrow> (Some c2, tr2)))"

subsection \<open>Reading a trace\<close>

text \<open>The events a call has added to the trace it was given.\<close>

definition added :: "trace \<Rightarrow> trace \<Rightarrow> trace" where
  "added tr tr' = drop (length tr) tr'"

text \<open>
  The shim windows alive after a trace: a successful create adds its result, a destroy
  removes its argument.
\<close>

fun live_step :: "ptr list \<Rightarrow> event \<Rightarrow> ptr list" where
  "live_step ls (WlEglWindowCreate f s w h r) = (if r \<noteq> 0 then r # ls else ls)"
| "live_step ls (WlEglWindowDestroy f w) = remove1 w ls"
| "live_step ls _ = ls"

definition live :: "trace \<Rightarrow> ptr list" where
  "live tr = foldl live_step [] tr"

text \<open>At every moment of the trace, that is after each of its prefixes, at most one
  shim window is alive.\<close>

definition at_most_one_live :: "trace \<Rightarrow> bool" where
  "at_most_one_live tr = list_all (\<lambda>pre. length (live pre) \<le> 1) (prefixes tr)"

text \<open>The shim windows the object holds: its stored handle, unless null.\<close>

definition held :: "GLContextEGLWayland \<Rightarrow> ptr list" where
  "held p = (if m_wl_window p = 0 then [] else [m_wl_window p])"

fun null_release :: "event \<Rightarrow> bool" where
  "null_release (WlEglWindowDestroy f w) = (w = 0)"
| "null_release (Dlclose h) = (h = 0)"
| "null_release _ = False"

fun null_fn_call :: "event \<Rightarrow> bool" where
  "null_fn_call (WlEglWindowCreate f s w h r) = (f = 0)"
| "null_fn_call (WlEglWindowDestroy f w) = (f = 0)"
| "null_fn_call (WlEglWindowResize f w x y dx dy) = (f = 0)"
| "null_fn_call _ = False"

fun creates_resource :: "event \<Rightarrow> bool" where
  "creates_resource (WlEglWindowCreate f s w h r) = True"
| "creates_resource (EglCreatePlatformWindowSurface d c w a r) = True"
| "creates_resource _ = False"

fun display_acquisition :: "event \<Rightarrow> bool" where
  "display_acquisition (EglGetPlatformDisplay pl dc a r) = True"
| "display_acquisition _ = False"

fun library_close :: "event \<Rightarrow> bool" where
  "library_close (Dlclose h) = True"
| "library_close _ = False"

fun error_sink :: "event \<Rightarrow> bool" where
  "error_sink (ErrorSetStringView err msg) = True"
| "error_sink (ErrorSetStringFmt err fmt args) = True"
| "error_sink (ErrorSetExtensionMissing err n a) = True"
| "error_sink _ = False"

fun error_log :: "event \<Rightarrow> bool" where
  "error_log (ConsoleError fmt args) = True"
| "error_log _ = False"

subsection \<open>Sequences of calls and the life cycle of a provider\<close>

text \<open>A run of \<open>CreatePlatformSurface\<close> calls on one provider, each with its
  configuration, attributes and error object.\<close>

fun CreatePlatformSurface_calls ::
  "env \<Rightarrow> (ptr \<times> ptr \<times> ptr) list \<Rightarrow> GLContextEGLWayland \<Rightarrow> trace \<Rightarrow> GLContextEGLWayland \<times> trace" where
  "CreatePlatformSurface_calls e [] p tr = (p, tr)"
| "CreatePlatformSurface_calls e ((config, attribs, error) # cs) p tr =
     (case CreatePlatformSurface e config attribs error p tr of
        (surface, p1, tr1) \<Rightarrow> CreatePlatformSurface_calls e cs p1 tr1)"

text \<open>
  The states a provider passes through. The factories construct it and call
  \<open>LoadModule\<close> once; only when that has succeeded do they hand the object to the base
  class, which then calls the two hooks, and only then can the host receive the object
  and resize it. The base class and the factories write the base members at any time;
  other parties add their own events to the trace.
\<close>

datatype phase = Constructed | LoadFailed | Loaded

inductive reachable :: "env \<Rightarrow> GLContextEGLWayland \<Rightarrow> trace \<Rightarrow> phase \<Rightarrow> bool" for e :: env where
  r_ctor: "reachable e (GLContextEGLWayland_ctor wi fns) tr Constructed"
| r_base: "reachable e p tr ph \<Longrightarrow>
     reachable e (p\<lparr>m_wi := wi, m_display := d, m_surface := s, m_context := c, m_version := v,
                    m_supports_surfaceless := b\<rparr>) (tr @ evs) ph"
| r_load: "reachable e p tr Constructed \<Longrightarrow> LoadModule e p tr = (ok, p', tr') \<Longrightarrow>
     reachable e p' tr' (if ok then Loaded else LoadFailed)"
| r_display: "reachable e p tr Loaded \<Longrightarrow> GetPlatformDisplay e attribs error p tr = (dpy, p', tr') \<Longrightarrow>
     reachable e p' tr' Loaded"
| r_surface: "reachable e p tr Loaded \<Longrightarrow> CreatePlatformSurface e config attribs error p tr = (sf, p', tr') \<Longrightarrow>
     reachable e p' tr' Loaded"
| r_resize: "reachable e p tr Loaded \<Longrightarrow> ResizeSurface e w h p tr = (p', tr') \<Longrightarrow>
     reachable e p' tr' Loaded"

subsection \<open>Concrete environments\<close>

text \<open>
  An outside world in which everything works: the library opens at address 100, the
  three symbols resolve to 201, 202 and 203, each shim window gets a fresh address, the
  platform returns display 500 and surface 400, and the Wayland extension is advertised.
  The variants below break one thing each.
\<close>

definition env_ok :: env where
  "env_ok =
     \<lparr> ext_dlopen = (\<lambda>tr name flags. 100),
       ext_dlsym = (\<lambda>tr h name.
          if name = ''wl_egl_window_create'' then 201
          else if name = ''wl_egl_window_destroy'' then 202
          else 203),
       ext_wl_egl_window_create = (\<lambda>tr f s w h. 300 + length tr),
       ext_eglGetPlatformDisplay = (\<lambda>tr pl dc a. 500),
       ext_eglCreatePlatformWindowSurface = (\<lambda>tr d c w a. 400),
       ext_eglGetError = (\<lambda>tr. 0x3003),
       ext_extensions = (\<lambda>tr. [''EGL_KHR_platform_wayland'']),
       ext_base_resize = (\<lambda>tr wi w h. wi\<lparr>surface_width := w, surface_height := h\<rparr>),
       ext_base_display_attribs = (\<lambda>tr. 0),
       ext_base_select_version = (\<lambda>tr vs. case vs of [] \<Rightarrow> None | v # _ \<Rightarrow> Some v),
       ext_base_create_context = (\<lambda>tr. Some (11, 12, 0, 13)) \<rparr>"

definition env_nolib :: env where
  "env_nolib = env_ok\<lparr>ext_dlopen := (\<lambda>tr name flags. 0)\<rparr>"

definition env_nosym :: env where
  "env_nosym = env_ok\<lparr>ext_dlsym := (\<lambda>tr h name.
     if name = ''wl_egl_window_resize'' then 0 else ext_dlsym env_ok tr h name)\<rparr>"

definition env_nosurface :: env where
  "env_nosurface = env_ok\<lparr>ext_eglCreatePlatformWindowSurface := (\<lambda>tr d c w a. 0)\<rparr>"

definition env_noext :: env where
  "env_noext = env_ok\<lparr>ext_extensions := (\<lambda>tr. [''EGL_KHR_platform_x11''])\<rparr>"

definition env_nodisplay :: env where
  "env_nodisplay = env_ok\<lparr>ext_eglGetPlatformDisplay := (\<lambda>tr pl dc a. 0)\<rparr>"

definition wi0 :: WindowInfo where
  "wi0 = \<lparr> display_connection = 1, window_handle = 2, surface_width = 640, surface_height = 480 \<rparr>"

text \<open>A provider as the factory has it after a successful \<open>LoadModule\<close> in \<open>env_ok\<close>,
  and the same provider holding shim window 7.\<close>

definition p_loaded :: GLContextEGLWayland where
  "p_loaded = (GLContextEGLWayland_ctor wi0 (0, 0, 0))
     \<lparr>m_wl_module := 100, m_wl_egl_window_create := 201, m_wl_egl_window_destroy := 202,
      m_wl_egl_window_resize := 203\<rparr>"

definition p_window :: GLContextEGLWayland where
  "p_window = p_loaded\<lparr>m_wl_window := 7\<rparr>"

section \<open>Properties\<close>

subsection \<open>Reading traces\<close>

lemma added_append [simp]: "added tr (tr @ new) = new"
  by (simp add: added_def)

lemma added_self [simp]: "added tr tr = []"
  by (simp add: added_def)

lemma added_Nil [simp]: "added [] tr = tr"
  by (simp add: added_def)

lemma added_snoc [simp]:
  "added tr (tr' @ [x]) = (if length tr \<le> length tr' then added tr tr' @ [x] else [])"
  by (simp add: added_def)

lemma live_append [simp]: "live (tr @ evs) = foldl live_step (live tr) evs"
  by (simp add: live_def)

lemma live_Nil [simp]: "live [] = []"
  by (simp add: live_def)

lemma at_most_one_live_self: "at_most_one_live tr \<Longrightarrow> length (live tr) \<le> 1"
  by (simp add: at_most_one_live_def list_all_iff)

lemma at_most_one_live_append:
  "at_most_one_live (tr @ evs) \<longleftrightarrow>
     at_most_one_live tr \<and> list_all (\<lambda>pre. length (foldl live_step (live tr) pre) \<le> 1) (prefixes evs)"
proof -
  let ?P = "\<lambda>pre. length (foldl live_step (live tr) pre) \<le> 1"
  have 1: "at_most_one_live (tr @ evs) \<longleftrightarrow> at_most_one_live tr \<and> list_all ?P (tl (prefixes evs))"
    by (simp add: at_most_one_live_def prefixes_append list_all_iff ball_Un)
  have 2: "list_all ?P (prefixes evs) \<longleftrightarrow> length (live tr) \<le> 1 \<and> list_all ?P (tl (prefixes evs))"
    by (cases evs) simp_all
  show ?thesis
    using 1 2 at_most_one_live_self [of tr] by blast
qed

lemma at_most_one_live_Nil [simp]: "at_most_one_live []"
  by (simp add: at_most_one_live_def)

text \<open>The definitions a concrete run unfolds.\<close>

lemmas concrete_defs =
  env_ok_def env_nolib_def env_nosym_def env_nosurface_def env_noext_def env_nodisplay_def
  wi0_def p_loaded_def p_window_def GLContextEGLWayland_ctor_def shared_context_init_def
  GLContextEGLWayland_dtor_def LoadModule_def GLContextEGL_ResizeSurface_def ResizeSurface_def
  CheckExtension_def GetPlatformDisplay_def destroy_existing_window_def CreatePlatformSurface_def
  CreateContextAndSurface_def Initialize_def Create_def CreateSharedContext_def
  EGL_NO_DISPLAY_def EGL_NO_SURFACE_def EGL_PLATFORM_WAYLAND_KHR_def WAYLAND_EGL_MODNAME_def
  Let_def held_def

subsection \<open>Destruction\<close>

text \<open>
  C1. The destructor with a live shim window and a live library handle destroys the
  window, through the stored destroy pointer, and then closes the library; with only one
  of the two it releases that one alone; with neither it does nothing. It never hands a
  null handle to \<open>wl_egl_window_destroy\<close> or to \<open>dlclose\<close>.
\<close>

theorem destructor_order:
  "(m_wl_window p \<noteq> 0 \<and> m_wl_module p \<noteq> 0 \<longrightarrow>
      GLContextEGLWayland_dtor p tr =
        tr @ [WlEglWindowDestroy (m_wl_egl_window_destroy p) (m_wl_window p), Dlclose (m_wl_module p)])
   \<and> (m_wl_window p \<noteq> 0 \<and> m_wl_module p = 0 \<longrightarrow>
      GLContextEGLWayland_dtor p tr =
        tr @ [WlEglWindowDestroy (m_wl_egl_window_destroy p) (m_wl_window p)])
   \<and> (m_wl_window p = 0 \<and> m_wl_module p \<noteq> 0 \<longrightarrow>
      GLContextEGLWayland_dtor p tr = tr @ [Dlclose (m_wl_module p)])
   \<and> (m_wl_window p = 0 \<and> m_wl_module p = 0 \<longrightarrow> GLContextEGLWayland_dtor p tr = tr)
   \<and> filter null_release (added tr (GLContextEGLWayland_dtor p tr)) = []"
  by (simp add: GLContextEGLWayland_dtor_def)

theorem destructor_order_witness:
  "GLContextEGLWayland_dtor p_window [] = [WlEglWindowDestroy 202 7, Dlclose 100]
   \<and> GLContextEGLWayland_dtor (p_window\<lparr>m_wl_module := 0\<rparr>) [] = [WlEglWindowDestroy 202 7]
   \<and> GLContextEGLWayland_dtor p_loaded [] = [Dlclose 100]
   \<and> GLContextEGLWayland_dtor (GLContextEGLWayland_ctor wi0 (0, 0, 0)) [] = []"
  using destructor_order [of p_window "[]"] destructor_order [of "p_window\<lparr>m_wl_module := 0\<rparr>" "[]"]
    destructor_order [of p_loaded "[]"] destructor_order [of "GLContextEGLWayland_ctor wi0 (0, 0, 0)" "[]"]
  by (simp add: p_window_def p_loaded_def GLContextEGLWayland_ctor_def)

subsection \<open>LoadModule\<close>

lemma LoadModule_frame:
  assumes "LoadModule e p tr = (ok, p', tr')"
  shows "(\<exists>new. tr' = tr @ new \<and> filter creates_resource new = []
              \<and> filter display_acquisition new = [] \<and> filter library_close new = []
              \<and> filter error_sink new = [])
       \<and> m_wl_window p' = m_wl_window p \<and> m_display p' = m_display p
       \<and> m_surface p' = m_surface p
       \<and> m_supports_surfaceless p' = m_supports_surfaceless p"
  using assms by (auto simp: LoadModule_def Let_def split: if_splits)

lemma LoadModule_first:
  assumes "LoadModule e p tr = (ok, p', tr')"
  shows "(\<exists>rest. tr' = tr @ Dlopen WAYLAND_EGL_MODNAME [RTLD_NOW, RTLD_GLOBAL] (m_wl_module p') # rest)
       \<and> (ok \<longrightarrow> m_wl_module p' \<noteq> 0 \<and> m_wl_egl_window_create p' \<noteq> 0
              \<and> m_wl_egl_window_destroy p' \<noteq> 0 \<and> m_wl_egl_window_resize p' \<noteq> 0)"
  using assms by (auto simp: LoadModule_def Let_def split: if_splits)

lemma dtor_frame:
  "\<exists>new. GLContextEGLWayland_dtor p tr = tr @ new \<and> filter creates_resource new = []
      \<and> filter display_acquisition new = [] \<and> filter error_sink new = []"
  by (simp add: GLContextEGLWayland_dtor_def)

text \<open>
  C6. \<open>LoadModule\<close> returns true exactly when the loader answers all four of its
  requests with a non-null pointer: the \<open>dlopen\<close> of the shim library and, on the handle
  it returned, the look-ups of \<open>wl_egl_window_create\<close>, \<open>wl_egl_window_destroy\<close> and
  \<open>wl_egl_window_resize\<close>. Read off the trace, it returns true exactly when its calls
  were those four, each with a non-null result, and nothing else. When the library
  opened and \<open>LoadModule\<close> still failed, the failure is logged, \<open>dlclose\<close> has not been
  called, the object keeps the handle, and the destructor run on that object ends with
  \<open>dlclose\<close> of that handle. A provider whose \<open>LoadModule\<close> failed is never handed out:
  both factories return nothing.
\<close>

theorem LoadModule_outcome:
  "(fst (LoadModule e p tr) \<longleftrightarrow>
      (let h = ext_dlopen e tr WAYLAND_EGL_MODNAME [RTLD_NOW, RTLD_GLOBAL];
           t1 = tr @ [Dlopen WAYLAND_EGL_MODNAME [RTLD_NOW, RTLD_GLOBAL] h];
           c = ext_dlsym e t1 h ''wl_egl_window_create'';
           t2 = t1 @ [Dlsym h ''wl_egl_window_create'' c];
           d = ext_dlsym e t2 h ''wl_egl_window_destroy'';
           t3 = t2 @ [Dlsym h ''wl_egl_window_destroy'' d];
           r = ext_dlsym e t3 h ''wl_egl_window_resize''
       in h \<noteq> 0 \<and> c \<noteq> 0 \<and> d \<noteq> 0 \<and> r \<noteq> 0))
   \<and> (LoadModule e p tr = (ok, p', tr') \<longrightarrow>
      (ok \<longleftrightarrow> (\<exists>h c d r. h \<noteq> 0 \<and> c \<noteq> 0 \<and> d \<noteq> 0 \<and> r \<noteq> 0 \<and>
         added tr tr' = [Dlopen WAYLAND_EGL_MODNAME [RTLD_NOW, RTLD_GLOBAL] h,
                         Dlsym h ''wl_egl_window_create'' c,
                         Dlsym h ''wl_egl_window_destroy'' d,
                         Dlsym h ''wl_egl_window_resize'' r])))
   \<and> (LoadModule e q tq = (False, q', tq') \<and> Dlopen n fl h \<in> set (added tq tq') \<and> h \<noteq> 0 \<longrightarrow>
        m_wl_module q' = h
        \<and> filter library_close (added tq tq') = []
        \<and> (\<exists>pre. tq' = pre @ [ConsoleError ''Failed to load one or more functions from %s.''
                                  [WAYLAND_EGL_MODNAME]])
        \<and> (\<exists>pre. GLContextEGLWayland_dtor q' tq' = pre @ [Dlclose h]))
   \<and> (\<not> fst (LoadModule e (GLContextEGLWayland_ctor wi fns) tr) \<longrightarrow>
        fst (Create e wi fns versions_to_try error tr) = None)
   \<and> (\<not> fst (LoadModule e (shared_context_init this wi fns) tr) \<longrightarrow>
        fst (CreateSharedContext e this wi fns tr) = None)"
proof (intro conjI impI)
  show "fst (LoadModule e p tr) \<longleftrightarrow>
      (let h = ext_dlopen e tr WAYLAND_EGL_MODNAME [RTLD_NOW, RTLD_GLOBAL];
           t1 = tr @ [Dlopen WAYLAND_EGL_MODNAME [RTLD_NOW, RTLD_GLOBAL] h];
           c = ext_dlsym e t1 h ''wl_egl_window_create'';
           t2 = t1 @ [Dlsym h ''wl_egl_window_create'' c];
           d = ext_dlsym e t2 h ''wl_egl_window_destroy'';
           t3 = t2 @ [Dlsym h ''wl_egl_window_destroy'' d];
           r = ext_dlsym e t3 h ''wl_egl_window_resize''
       in h \<noteq> 0 \<and> c \<noteq> 0 \<and> d \<noteq> 0 \<and> r \<noteq> 0)"
    by (simp add: LoadModule_def Let_def)
next
  assume "LoadModule e p tr = (ok, p', tr')"
  then show "ok \<longleftrightarrow> (\<exists>h c d r. h \<noteq> 0 \<and> c \<noteq> 0 \<and> d \<noteq> 0 \<and> r \<noteq> 0 \<and>
         added tr tr' = [Dlopen WAYLAND_EGL_MODNAME [RTLD_NOW, RTLD_GLOBAL] h,
                         Dlsym h ''wl_egl_window_create'' c,
                         Dlsym h ''wl_egl_window_destroy'' d,
                         Dlsym h ''wl_egl_window_resize'' r])"
    by (auto simp: LoadModule_def Let_def split: if_splits)
next
  assume a: "LoadModule e q tq = (False, q', tq') \<and> Dlopen n fl h \<in> set (added tq tq') \<and> h \<noteq> 0"
  then show "m_wl_module q' = h"
    by (auto simp: LoadModule_def Let_def split: if_splits)
  from a show "filter library_close (added tq tq') = []"
    by (auto simp: LoadModule_def Let_def split: if_splits)
  from a show "\<exists>pre. tq' = pre @ [ConsoleError ''Failed to load one or more functions from %s.''
                                  [WAYLAND_EGL_MODNAME]]"
    by (auto simp: LoadModule_def Let_def split: if_splits)
  from a show "\<exists>pre. GLContextEGLWayland_dtor q' tq' = pre @ [Dlclose h]"
    by (auto simp: LoadModule_def GLContextEGLWayland_dtor_def Let_def split: if_splits)
next
  assume "\<not> fst (LoadModule e (GLContextEGLWayland_ctor wi fns) tr)"
  then show "fst (Create e wi fns versions_to_try error tr) = None"
    by (cases "LoadModule e (GLContextEGLWayland_ctor wi fns) tr") (simp add: Create_def)
next
  assume "\<not> fst (LoadModule e (shared_context_init this wi fns) tr)"
  then show "fst (CreateSharedContext e this wi fns tr) = None"
    by (cases "LoadModule e (shared_context_init this wi fns) tr") (simp add: CreateSharedContext_def)
qed

theorem LoadModule_outcome_witness:
  "LoadModule env_ok (GLContextEGLWayland_ctor wi0 (0, 0, 0)) [] =
     (True, p_loaded,
      [Dlopen ''libwayland-egl.so.1'' [RTLD_NOW, RTLD_GLOBAL] 100,
       Dlsym 100 ''wl_egl_window_create'' 201,
       Dlsym 100 ''wl_egl_window_destroy'' 202,
       Dlsym 100 ''wl_egl_window_resize'' 203])
   \<and> ext_dlopen env_ok [] WAYLAND_EGL_MODNAME [RTLD_NOW, RTLD_GLOBAL] = 100
   \<and> ext_dlsym env_nosym
        [Dlopen ''libwayland-egl.so.1'' [RTLD_NOW, RTLD_GLOBAL] 100,
         Dlsym 100 ''wl_egl_window_create'' 201,
         Dlsym 100 ''wl_egl_window_destroy'' 202] 100 ''wl_egl_window_resize'' = 0
   \<and> fst (LoadModule env_nosym (GLContextEGLWayland_ctor wi0 (0, 0, 0)) []) = False
   \<and> m_wl_module (fst (snd (LoadModule env_nosym (GLContextEGLWayland_ctor wi0 (0, 0, 0)) []))) = 100
   \<and> GLContextEGLWayland_dtor
        (fst (snd (LoadModule env_nosym (GLContextEGLWayland_ctor wi0 (0, 0, 0)) [])))
        (snd (snd (LoadModule env_nosym (GLContextEGLWayland_ctor wi0 (0, 0, 0)) []))) =
       snd (snd (LoadModule env_nosym (GLContextEGLWayland_ctor wi0 (0, 0, 0)) [])) @ [Dlclose 100]
   \<and> fst (Create env_nosym wi0 (0, 0, 0) [3, 2] 13 []) = None
   \<and> fst (CreateSharedContext env_nosym p_loaded wi0 (0, 0, 0) []) = None"
proof -
  have ok: "LoadModule env_ok (GLContextEGLWayland_ctor wi0 (0, 0, 0)) [] =
     (True, p_loaded,
      [Dlopen ''libwayland-egl.so.1'' [RTLD_NOW, RTLD_GLOBAL] 100,
       Dlsym 100 ''wl_egl_window_create'' 201,
       Dlsym 100 ''wl_egl_window_destroy'' 202,
       Dlsym 100 ''wl_egl_window_resize'' 203])"
    by (simp add: concrete_defs)
  have bad: "LoadModule env_nosym (GLContextEGLWayland_ctor wi0 (0, 0, 0)) [] =
     (False, p_loaded\<lparr>m_wl_egl_window_resize := 0\<rparr>,
      [Dlopen ''libwayland-egl.so.1'' [RTLD_NOW, RTLD_GLOBAL] 100,
       Dlsym 100 ''wl_egl_window_create'' 201,
       Dlsym 100 ''wl_egl_window_destroy'' 202,
       Dlsym 100 ''wl_egl_window_resize'' 0,
       ConsoleError ''Failed to load one or more functions from %s.'' [''libwayland-egl.so.1'']])"
    by (simp add: concrete_defs)
  have bad2: "\<not> fst (LoadModule env_nosym (shared_context_init p_loaded wi0 (0, 0, 0)) [])"
    by (simp add: concrete_defs)
  from LoadModule_outcome [where e = env_nosym and p = "GLContextEGLWayland_ctor wi0 (0, 0, 0)"
      and tr = "[]" and ok = False and p' = "p_loaded\<lparr>m_wl_egl_window_resize := 0\<rparr>"
      and q = "GLContextEGLWayland_ctor wi0 (0, 0, 0)" and tq = "[]"
      and q' = "p_loaded\<lparr>m_wl_egl_window_resize := 0\<rparr>"
      and n = "''libwayland-egl.so.1''" and fl = "[RTLD_NOW, RTLD_GLOBAL]" and h = 100
      and wi = wi0 and fns = "(0, 0, 0)" and this = p_loaded and versions_to_try = "[3, 2]"
      and error = 13]
    LoadModule_outcome [where e = env_ok and p = "GLContextEGLWayland_ctor wi0 (0, 0, 0)"
      and tr = "[]" and ok = True and p' = p_loaded]
    ok bad bad2
  show ?thesis
    by (simp add: GLContextEGLWayland_dtor_def p_loaded_def GLContextEGLWayland_ctor_def
          env_ok_def env_nosym_def WAYLAND_EGL_MODNAME_def Let_def)
qed

subsection \<open>CreatePlatformSurface\<close>

lemma destroy_existing_window_added:
  "destroy_existing_window p tr = (p1, tr1) \<Longrightarrow>
     length tr \<le> length tr1 \<and> m_wl_window p1 = 0 \<and>
     p1 = p\<lparr>m_wl_window := 0\<rparr> \<and>
     tr1 = tr @ (if m_wl_window p \<noteq> 0
                 then [WlEglWindowDestroy (m_wl_egl_window_destroy p) (m_wl_window p)] else [])"
  by (auto simp: destroy_existing_window_def split: if_splits)

lemma destroy_existing_window_live:
  assumes "live tr = held p" and "at_most_one_live tr"
    and "destroy_existing_window p tr = (p1, tr1)"
  shows "live tr1 = [] \<and> at_most_one_live tr1"
  using assms
  by (auto simp: destroy_existing_window_def held_def at_most_one_live_append split: if_splits)

lemma CreatePlatformSurface_live:
  assumes "live tr = held p" and "at_most_one_live tr"
    and "CreatePlatformSurface e config attribs error p tr = (sf, p', tr')"
  shows "live tr' = held p' \<and> at_most_one_live tr'"
proof -
  obtain p1 tr1 where d: "destroy_existing_window p tr = (p1, tr1)"
    by (cases "destroy_existing_window p tr")
  from destroy_existing_window_live [OF assms(1,2) d]
  have l: "live tr1 = []" and a: "at_most_one_live tr1" by simp_all
  show ?thesis
    using assms(3) d l a
    by (auto simp: CreatePlatformSurface_def Let_def held_def at_most_one_live_append
             split: if_splits)
qed

lemma CreatePlatformSurface_calls_live:
  "live tr = held p \<Longrightarrow> at_most_one_live tr \<Longrightarrow>
   CreatePlatformSurface_calls e cs p tr = (p', tr') \<Longrightarrow>
   live tr' = held p' \<and> at_most_one_live tr'"
proof (induction cs arbitrary: p tr)
  case Nil
  then show ?case by simp
next
  case (Cons c cs)
  obtain config attribs error where c: "c = (config, attribs, error)"
    by (cases c)
  obtain sf p1 tr1 where s: "CreatePlatformSurface e config attribs error p tr = (sf, p1, tr1)"
    by (cases "CreatePlatformSurface e config attribs error p tr")
  from CreatePlatformSurface_live [OF Cons.prems(1,2) s]
  have "live tr1 = held p1" and "at_most_one_live tr1" by simp_all
  moreover from Cons.prems(3) c s have "CreatePlatformSurface_calls e cs p1 tr1 = (p', tr')"
    by simp
  ultimately show ?case by (rule Cons.IH)
qed

lemma CreatePlatformSurface_starts:
  assumes "CreatePlatformSurface e config attribs error p tr = (sf, p', tr')"
    and "destroy_existing_window p tr = (p1, tr1)"
  shows "\<exists>w rest. tr' = tr1 @ WlEglWindowCreate (m_wl_egl_window_create p) (window_handle (m_wi p))
              (surface_width (m_wi p)) (surface_height (m_wi p)) w # rest"
  using assms destroy_existing_window_added [OF assms(2)]
  by (auto simp: CreatePlatformSurface_def Let_def split: if_splits)

text \<open>
  C2. Take a provider whose stored handle is exactly what is alive in the trace so far,
  with never more than one shim window alive up to now. After any run of
  \<open>CreatePlatformSurface\<close> calls the same holds again: at every moment of the whole
  trace at most one shim window is alive, and what is alive at the end is the stored
  handle. Each single call starts by destroying the existing shim window, if there is
  one, and clearing the stored handle, and only then calls \<open>wl_egl_window_create\<close>.
\<close>

theorem at_most_one_shim_window:
  "(live tr = held p \<and> at_most_one_live tr
      \<and> CreatePlatformSurface_calls e cs p tr = (p', tr') \<longrightarrow>
        at_most_one_live tr' \<and> live tr' = held p')
   \<and> (CreatePlatformSurface e config attribs error q tq = (sf, q', tq')
        \<and> destroy_existing_window q tq = (q1, tq1) \<longrightarrow>
        m_wl_window q1 = 0
        \<and> tq1 = tq @ (if m_wl_window q \<noteq> 0
                       then [WlEglWindowDestroy (m_wl_egl_window_destroy q) (m_wl_window q)]
                       else [])
        \<and> (\<exists>w rest. tq' = tq1 @ WlEglWindowCreate (m_wl_egl_window_create q)
               (window_handle (m_wi q)) (surface_width (m_wi q)) (surface_height (m_wi q)) w # rest))"
  using CreatePlatformSurface_calls_live [of tr p e cs p' tr']
    CreatePlatformSurface_starts [of e config attribs error q tq sf q' tq' q1 tq1]
    destroy_existing_window_added [of q tq q1 tq1]
  by blast

theorem at_most_one_shim_window_witness:
  "live [] = held p_loaded \<and> at_most_one_live []
   \<and> CreatePlatformSurface_calls env_ok [(11, 0, 13), (11, 0, 13)] p_loaded [] =
       (p_loaded\<lparr>m_wl_window := 303\<rparr>,
        [WlEglWindowCreate 201 2 640 480 300, EglCreatePlatformWindowSurface 0 11 300 0 400,
         WlEglWindowDestroy 202 300,
         WlEglWindowCreate 201 2 640 480 303, EglCreatePlatformWindowSurface 0 11 303 0 400])
   \<and> at_most_one_live
        [WlEglWindowCreate 201 2 640 480 300, EglCreatePlatformWindowSurface 0 11 300 0 400,
         WlEglWindowDestroy 202 300,
         WlEglWindowCreate 201 2 640 480 303, EglCreatePlatformWindowSurface 0 11 303 0 400]
   \<and> destroy_existing_window p_window [WlEglWindowCreate 201 2 640 480 7] =
        (p_loaded, [WlEglWindowCreate 201 2 640 480 7, WlEglWindowDestroy 202 7])
   \<and> snd (snd (CreatePlatformSurface env_ok 11 0 13 p_window [WlEglWindowCreate 201 2 640 480 7])) =
        [WlEglWindowCreate 201 2 640 480 7, WlEglWindowDestroy 202 7,
         WlEglWindowCreate 201 2 640 480 302, EglCreatePlatformWindowSurface 0 11 302 0 400]"
proof -
  have run: "CreatePlatformSurface_calls env_ok [(11, 0, 13), (11, 0, 13)] p_loaded [] =
       (p_loaded\<lparr>m_wl_window := 303\<rparr>,
        [WlEglWindowCreate 201 2 640 480 300, EglCreatePlatformWindowSurface 0 11 300 0 400,
         WlEglWindowDestroy 202 300,
         WlEglWindowCreate 201 2 640 480 303, EglCreatePlatformWindowSurface 0 11 303 0 400])"
    by (simp add: concrete_defs)
  have one: "CreatePlatformSurface env_ok 11 0 13 p_window [WlEglWindowCreate 201 2 640 480 7] =
       (400, p_loaded\<lparr>m_wl_window := 302\<rparr>,
        [WlEglWindowCreate 201 2 640 480 7, WlEglWindowDestroy 202 7,
         WlEglWindowCreate 201 2 640 480 302, EglCreatePlatformWindowSurface 0 11 302 0 400])"
    by (simp add: concrete_defs)
  have d: "destroy_existing_window p_window [WlEglWindowCreate 201 2 640 480 7] =
        (p_loaded, [WlEglWindowCreate 201 2 640 480 7, WlEglWindowDestroy 202 7])"
    by (simp add: concrete_defs)
  have h: "live [] = held p_loaded" "at_most_one_live []"
    by (simp_all add: concrete_defs)
  from at_most_one_shim_window [of "[]" p_loaded env_ok "[(11, 0, 13), (11, 0, 13)]"
      "p_loaded\<lparr>m_wl_window := 303\<rparr>" _ 11 0 13 p_window "[WlEglWindowCreate 201 2 640 480 7]"
      400 "p_loaded\<lparr>m_wl_window := 302\<rparr>" _ p_loaded _] run one d h
  show ?thesis by simp
qed



subsection \<open>GetPlatformDisplay\<close>



subsection \<open>ResizeSurface\<close>

text \<open>
  C7. \<open>ResizeSurface w h\<close> on a provider that holds a shim window calls the resize
  function of the shim with that window and exactly \<open>(w, h, 0, 0)\<close>, and then the
  generic resize of the base class with \<open>(w, h)\<close>; on a provider without a shim window
  it calls the generic resize alone. The generic resize is the last call in both cases.
\<close>

theorem ResizeSurface_calls:
  assumes "ResizeSurface e w h p tr = (p', tr')"
  shows "(m_wl_window p \<noteq> 0 \<longrightarrow>
            added tr tr' = [WlEglWindowResize (m_wl_egl_window_resize p) (m_wl_window p) w h 0 0,
                            BaseResizeSurface w h])
       \<and> (m_wl_window p = 0 \<longrightarrow> added tr tr' = [BaseResizeSurface w h])
       \<and> (\<exists>tr1. (p', tr') = GLContextEGL_ResizeSurface e w h p tr1)"
  using assms
  by (auto simp: ResizeSurface_def GLContextEGL_ResizeSurface_def Let_def)

theorem ResizeSurface_calls_witness:
  "added [] (snd (ResizeSurface env_ok 800 600 p_window [])) =
     [WlEglWindowResize 203 7 800 600 0 0, BaseResizeSurface 800 600]
   \<and> added [] (snd (ResizeSurface env_ok 800 600 p_loaded [])) = [BaseResizeSurface 800 600]"
  using ResizeSurface_calls [of env_ok 800 600 p_window "[]" "fst (ResizeSurface env_ok 800 600 p_window [])"
      "snd (ResizeSurface env_ok 800 600 p_window [])"]
    ResizeSurface_calls [of env_ok 800 600 p_loaded "[]" "fst (ResizeSurface env_ok 800 600 p_loaded [])"
      "snd (ResizeSurface env_ok 800 600 p_loaded [])"]
  by (simp add: p_window_def p_loaded_def GLContextEGLWayland_ctor_def)

subsection \<open>The factories\<close>

lemma CreatePlatformSurface_frame:
  assumes "CreatePlatformSurface e config attribs error p tr = (sf, p', tr')"
  shows "(\<exists>new. tr' = tr @ new \<and> filter display_acquisition new = [])
       \<and> p' = p\<lparr>m_wl_window := m_wl_window p'\<rparr>"
  using assms
  by (auto simp: CreatePlatformSurface_def destroy_existing_window_def Let_def split: if_splits)

lemma CreateContextAndSurface_frame:
  assumes "CreateContextAndSurface e version share_context make_current p tr = (ok, p', tr')"
  shows "(\<exists>rest. tr' = tr @ BaseCreateContextAndSurface (m_display p) version share_context make_current # rest
             \<and> filter display_acquisition rest = [])
       \<and> m_display p' = m_display p \<and> m_supports_surfaceless p' = m_supports_surfaceless p
       \<and> m_wl_module p' = m_wl_module p"
proof (cases "ext_base_create_context e
    (tr @ [BaseCreateContextAndSurface (m_display p) version share_context make_current])")
  case None
  with assms show ?thesis
    by (auto simp: CreateContextAndSurface_def Let_def)
next
  case (Some t)
  obtain config ctx attribs error where t: "t = (config, ctx, attribs, error)"
    by (cases t)
  obtain sf p1 tr2 where s: "CreatePlatformSurface e config attribs error p
      (tr @ [BaseCreateContextAndSurface (m_display p) version share_context make_current]) = (sf, p1, tr2)"
    by (cases "CreatePlatformSurface e config attribs error p
      (tr @ [BaseCreateContextAndSurface (m_display p) version share_context make_current])")
  from CreatePlatformSurface_frame [OF s] obtain new where
    n: "tr2 = (tr @ [BaseCreateContextAndSurface (m_display p) version share_context make_current]) @ new"
      "filter display_acquisition new = []" and p1: "p1 = p\<lparr>m_wl_window := m_wl_window p1\<rparr>"
    by blast
  have f: "m_display p1 = m_display p" "m_supports_surfaceless p1 = m_supports_surfaceless p"
      "m_wl_module p1 = m_wl_module p"
    by (subst p1, simp)+
  from assms Some t s n f show ?thesis
    by (auto simp: CreateContextAndSurface_def Let_def split: if_splits)
qed

text \<open>
  C5. When \<open>LoadModule\<close> fails on the freshly constructed provider, \<open>Create\<close> returns
  nothing, and the whole call has made neither a \<open>wl_egl_window_create\<close> call nor an
  \<open>eglCreatePlatformWindowSurface\<close> call; the provider, which is destroyed before
  \<open>Create\<close> returns, holds no shim window and no surface.
\<close>

theorem LoadModule_failure_Create:
  assumes "\<not> fst (LoadModule e (GLContextEGLWayland_ctor wi fns) tr)"
  shows "fst (Create e wi fns versions_to_try error tr) = None
       \<and> (\<exists>new. snd (Create e wi fns versions_to_try error tr) = tr @ new
              \<and> filter creates_resource new = [])
       \<and> m_wl_window (fst (snd (LoadModule e (GLContextEGLWayland_ctor wi fns) tr))) = 0
       \<and> m_surface (fst (snd (LoadModule e (GLContextEGLWayland_ctor wi fns) tr))) = EGL_NO_SURFACE"
proof -
  obtain ok c1 tr1 where l: "LoadModule e (GLContextEGLWayland_ctor wi fns) tr = (ok, c1, tr1)"
    by (cases "LoadModule e (GLContextEGLWayland_ctor wi fns) tr")
  with assms have ok: "\<not> ok" by simp
  from LoadModule_frame [OF l] obtain new1 where
    n1: "tr1 = tr @ new1" "filter creates_resource new1 = []"
    and w: "m_wl_window c1 = 0" "m_surface c1 = 0"
    by (auto simp: GLContextEGLWayland_ctor_def)
  from dtor_frame [of c1 tr1] obtain new2 where
    n2: "GLContextEGLWayland_dtor c1 tr1 = tr1 @ new2" "filter creates_resource new2 = []"
    by blast
  from l ok have c: "Create e wi fns versions_to_try error tr = (None, GLContextEGLWayland_dtor c1 tr1)"
    by (simp add: Create_def)
  have "snd (Create e wi fns versions_to_try error tr) = tr @ (new1 @ new2)"
    using c n1 n2 by simp
  moreover have "filter creates_resource (new1 @ new2) = []"
    using n1 n2 by simp
  ultimately show ?thesis
    using c l w by (auto simp: EGL_NO_SURFACE_def)
qed

theorem LoadModule_failure_Create_witness:
  "\<not> fst (LoadModule env_nosym (GLContextEGLWayland_ctor wi0 (0, 0, 0)) [])
   \<and> Create env_nosym wi0 (0, 0, 0) [3, 2] 13 [] =
       (None,
        [Dlopen ''libwayland-egl.so.1'' [RTLD_NOW, RTLD_GLOBAL] 100,
         Dlsym 100 ''wl_egl_window_create'' 201,
         Dlsym 100 ''wl_egl_window_destroy'' 202,
         Dlsym 100 ''wl_egl_window_resize'' 0,
         ConsoleError ''Failed to load one or more functions from %s.'' [''libwayland-egl.so.1''],
         Dlclose 100])
   \<and> \<not> fst (LoadModule env_nolib (GLContextEGLWayland_ctor wi0 (0, 0, 0)) [])
   \<and> Create env_nolib wi0 (0, 0, 0) [3, 2] 13 [] =
       (None,
        [Dlopen ''libwayland-egl.so.1'' [RTLD_NOW, RTLD_GLOBAL] 0,
         ConsoleError ''Failed to load %s.'' [''libwayland-egl.so.1'']])"
  using LoadModule_failure_Create [of env_nosym wi0 "(0, 0, 0)" "[]" "[3, 2]" 13]
    LoadModule_failure_Create [of env_nolib wi0 "(0, 0, 0)" "[]" "[3, 2]" 13]
  by (simp add: concrete_defs)

text \<open>
  C8. \<open>CreateSharedContext\<close> builds a new provider with the display handle and the
  surfaceless flag of the provider it is called on, and never calls
  \<open>eglGetPlatformDisplay\<close>. Its first call is the \<open>dlopen\<close> of \<open>LoadModule\<close>, whose
  result is the library handle of the new provider. When \<open>LoadModule\<close> fails the result
  is nothing. When it succeeds, the next call is \<open>CreateContextAndSurface\<close> of the base
  class on the copied display with the version and the context of the invoking provider
  and the flag \<open>false\<close>; the result is nothing exactly when that call fails, and
  otherwise the provider that call leaves, which still has the copied display and flag
  and its own library handle.
\<close>

theorem CreateSharedContext_delegates:
  assumes "CreateSharedContext e this wi fns tr = (res, tr')"
    and "LoadModule e (shared_context_init this wi fns) tr = (ok, c1, tr1)"
  shows "m_display (shared_context_init this wi fns) = m_display this
       \<and> m_supports_surfaceless (shared_context_init this wi fns) = m_supports_surfaceless this
       \<and> m_display c1 = m_display this
       \<and> m_supports_surfaceless c1 = m_supports_surfaceless this
       \<and> filter display_acquisition (added tr tr') = []
       \<and> (\<exists>rest. added tr tr' =
             Dlopen WAYLAND_EGL_MODNAME [RTLD_NOW, RTLD_GLOBAL] (m_wl_module c1) # rest)
       \<and> (\<not> ok \<longrightarrow> res = None)
       \<and> (ok \<longrightarrow>
            (\<exists>rest. tr' = tr1 @ BaseCreateContextAndSurface (m_display this) (m_version this)
                                  (m_context this) False # rest)
            \<and> (res = None \<longleftrightarrow>
                 \<not> fst (CreateContextAndSurface e (m_version this) (m_context this) False c1 tr1))
            \<and> (\<forall>c. res = Some c \<longrightarrow>
                  c = fst (snd (CreateContextAndSurface e (m_version this) (m_context this) False c1 tr1))
                  \<and> m_display c = m_display this
                  \<and> m_supports_surfaceless c = m_supports_surfaceless this
                  \<and> m_wl_module c = m_wl_module c1 \<and> m_wl_module c \<noteq> 0))"
proof -
  have i: "m_display (shared_context_init this wi fns) = m_display this"
      "m_supports_surfaceless (shared_context_init this wi fns) = m_supports_surfaceless this"
    by (simp_all add: shared_context_init_def)
  from LoadModule_frame [OF assms(2)] i obtain new1 where
    n1: "tr1 = tr @ new1" "filter display_acquisition new1 = []"
    and c1: "m_display c1 = m_display this" "m_supports_surfaceless c1 = m_supports_surfaceless this"
    by auto
  from LoadModule_first [OF assms(2)] n1 obtain rest1 where
    r1: "new1 = Dlopen WAYLAND_EGL_MODNAME [RTLD_NOW, RTLD_GLOBAL] (m_wl_module c1) # rest1"
    and m: "ok \<longrightarrow> m_wl_module c1 \<noteq> 0"
    by auto
  show ?thesis
  proof (cases ok)
    case False
    from dtor_frame [of c1 tr1] obtain new2 where
      n2: "GLContextEGLWayland_dtor c1 tr1 = tr1 @ new2" "filter display_acquisition new2 = []"
      by blast
    from False assms have "res = None" "tr' = GLContextEGLWayland_dtor c1 tr1"
      by (simp_all add: CreateSharedContext_def)
    with False i c1 n1 n2 r1 show ?thesis by simp
  next
    case True
    obtain ok2 c2 tr2 where
      d: "CreateContextAndSurface e (m_version this) (m_context this) False c1 tr1 = (ok2, c2, tr2)"
      by (cases "CreateContextAndSurface e (m_version this) (m_context this) False c1 tr1")
    from CreateContextAndSurface_frame [OF d] c1 obtain rest2 where
      n2: "tr2 = tr1 @ BaseCreateContextAndSurface (m_display this) (m_version this)
                        (m_context this) False # rest2"
        "filter display_acquisition rest2 = []"
      and c2: "m_display c2 = m_display this" "m_supports_surfaceless c2 = m_supports_surfaceless this"
        "m_wl_module c2 = m_wl_module c1"
      by auto
    show ?thesis
    proof (cases ok2)
      case False
      from dtor_frame [of c2 tr2] obtain new3 where
        n3: "GLContextEGLWayland_dtor c2 tr2 = tr2 @ new3" "filter display_acquisition new3 = []"
        by blast
      from False True assms d have "res = None" "tr' = GLContextEGLWayland_dtor c2 tr2"
        by (simp_all add: CreateSharedContext_def)
      with False True i c1 n1 n2 n3 r1 d show ?thesis by simp
    next
      case ok2: True
      from ok2 True assms d have "res = Some c2" "tr' = tr2"
        by (simp_all add: CreateSharedContext_def)
      with ok2 True i c1 c2 n1 n2 r1 d m show ?thesis by simp
    qed
  qed
qed

theorem CreateSharedContext_delegates_witness:
  "CreateSharedContext env_ok
      (p_window\<lparr>m_display := 500, m_context := 12, m_version := 3, m_supports_surfaceless := True\<rparr>)
      wi0 (0, 0, 0) [] =
     (Some (p_loaded\<lparr>m_display := 500, m_surface := 400, m_context := 12, m_version := 3,
                      m_supports_surfaceless := True, m_wl_window := 305\<rparr>),
      [Dlopen ''libwayland-egl.so.1'' [RTLD_NOW, RTLD_GLOBAL] 100,
       Dlsym 100 ''wl_egl_window_create'' 201,
       Dlsym 100 ''wl_egl_window_destroy'' 202,
       Dlsym 100 ''wl_egl_window_resize'' 203,
       BaseCreateContextAndSurface 500 3 12 False,
       WlEglWindowCreate 201 2 640 480 305,
       EglCreatePlatformWindowSurface 500 11 305 0 400])
   \<and> fst (CreateSharedContext env_nosurface
      (p_window\<lparr>m_display := 500, m_context := 12, m_version := 3, m_supports_surfaceless := True\<rparr>)
      wi0 (0, 0, 0) []) = None
   \<and> fst (CreateSharedContext env_nolib
      (p_window\<lparr>m_display := 500, m_context := 12, m_version := 3, m_supports_surfaceless := True\<rparr>)
      wi0 (0, 0, 0) []) = None"
proof -
  let ?me = "p_window\<lparr>m_display := 500, m_context := 12, m_version := 3,
                         m_supports_surfaceless := True\<rparr>"
  have c: "CreateSharedContext env_ok ?me wi0 (0, 0, 0) [] =
     (Some (p_loaded\<lparr>m_display := 500, m_surface := 400, m_context := 12, m_version := 3,
                      m_supports_surfaceless := True, m_wl_window := 305\<rparr>),
      [Dlopen ''libwayland-egl.so.1'' [RTLD_NOW, RTLD_GLOBAL] 100,
       Dlsym 100 ''wl_egl_window_create'' 201,
       Dlsym 100 ''wl_egl_window_destroy'' 202,
       Dlsym 100 ''wl_egl_window_resize'' 203,
       BaseCreateContextAndSurface 500 3 12 False,
       WlEglWindowCreate 201 2 640 480 305,
       EglCreatePlatformWindowSurface 500 11 305 0 400])"
    by (simp add: concrete_defs)
  have l: "LoadModule env_ok (shared_context_init ?me wi0 (0, 0, 0)) [] =
     (True, p_loaded\<lparr>m_display := 500, m_supports_surfaceless := True\<rparr>,
      [Dlopen ''libwayland-egl.so.1'' [RTLD_NOW, RTLD_GLOBAL] 100,
       Dlsym 100 ''wl_egl_window_create'' 201,
       Dlsym 100 ''wl_egl_window_destroy'' 202,
       Dlsym 100 ''wl_egl_window_resize'' 203])"
    by (simp add: concrete_defs)
  have c2: "CreateSharedContext env_nosurface ?me wi0 (0, 0, 0) [] =
     (fst (CreateSharedContext env_nosurface ?me wi0 (0, 0, 0) []),
      snd (CreateSharedContext env_nosurface ?me wi0 (0, 0, 0) []))"
    by simp
  have l2: "LoadModule env_nosurface (shared_context_init ?me wi0 (0, 0, 0)) [] =
     (True, p_loaded\<lparr>m_display := 500, m_supports_surfaceless := True\<rparr>,
      [Dlopen ''libwayland-egl.so.1'' [RTLD_NOW, RTLD_GLOBAL] 100,
       Dlsym 100 ''wl_egl_window_create'' 201,
       Dlsym 100 ''wl_egl_window_destroy'' 202,
       Dlsym 100 ''wl_egl_window_resize'' 203])"
    by (simp add: concrete_defs)
  have d2: "\<not> fst (CreateContextAndSurface env_nosurface 3 12 False
      (p_loaded\<lparr>m_display := 500, m_supports_surfaceless := True\<rparr>)
      [Dlopen ''libwayland-egl.so.1'' [RTLD_NOW, RTLD_GLOBAL] 100,
       Dlsym 100 ''wl_egl_window_create'' 201,
       Dlsym 100 ''wl_egl_window_destroy'' 202,
       Dlsym 100 ''wl_egl_window_resize'' 203])"
    by (simp add: concrete_defs)
  have c3: "CreateSharedContext env_nolib ?me wi0 (0, 0, 0) [] =
     (fst (CreateSharedContext env_nolib ?me wi0 (0, 0, 0) []),
      snd (CreateSharedContext env_nolib ?me wi0 (0, 0, 0) []))"
    by simp
  have l3: "LoadModule env_nolib (shared_context_init ?me wi0 (0, 0, 0)) [] =
     (False, (GLContextEGLWayland_ctor wi0 (0, 0, 0))\<lparr>m_display := 500, m_supports_surfaceless := True\<rparr>,
      [Dlopen ''libwayland-egl.so.1'' [RTLD_NOW, RTLD_GLOBAL] 0,
       ConsoleError ''Failed to load %s.'' [''libwayland-egl.so.1'']])"
    by (simp add: concrete_defs)
  from CreateSharedContext_delegates [OF c l] CreateSharedContext_delegates [OF c2 l2]
    CreateSharedContext_delegates [OF c3 l3] c d2
  show ?thesis by (simp add: p_window_def p_loaded_def GLContextEGLWayland_ctor_def)
qed

subsection \<open>Error reporting\<close>

text \<open>
  C9, as the code has it. Every failure is reported in the call that fails, before it
  returns. A failed \<open>LoadModule\<close> ends with a line on the error log (\<open>Console.Error\<close>)
  that names the library, and writes nothing to the error object, which it is not
  given. A \<open>GetPlatformDisplay\<close> that returns no display ends with the message set on
  the error object: the one of the extension check, or the \<open>eglGetError\<close> code of the
  failed platform call. A \<open>CreatePlatformSurface\<close> that returns no surface has set a
  message on the error object: the fixed text after a failed shim create, or the
  \<open>eglGetError\<close> code of the failed platform call, after which only the shim window is
  destroyed.
\<close>

theorem failures_are_reported:
  "(LoadModule e p tr = (False, p', tr') \<longrightarrow>
      (\<exists>pre fmt. tr' = pre @ [ConsoleError fmt [WAYLAND_EGL_MODNAME]]
          \<and> (fmt = ''Failed to load %s.''
               \<or> fmt = ''Failed to load one or more functions from %s.''))
      \<and> filter error_sink (added tr tr') = [])
   \<and> (GetPlatformDisplay e attribs error q tq = (EGL_NO_DISPLAY, q', tq') \<longrightarrow>
      (\<exists>pre. tq' = pre @ [ErrorSetExtensionMissing error
                             ''EGL_KHR_platform_wayland'' ''EGL_EXT_platform_wayland''])
      \<or> (\<exists>pre err. tq' = pre @
            [EglGetError err,
             ErrorSetStringFmt error
               ''eglGetPlatformDisplay() for Wayland failed: {} (0x{:X})'' [err, err]]))
   \<and> (CreatePlatformSurface e config sattribs serror r ts = (EGL_NO_SURFACE, r', ts') \<longrightarrow>
      (\<exists>pre f s x y. ts' = pre @
            [WlEglWindowCreate f s x y 0,
             ErrorSetStringView serror ''wl_egl_window_create() failed''])
      \<or> (\<exists>pre err f w. ts' = pre @
            [EglGetError err,
             ErrorSetStringFmt serror
               ''eglCreatePlatformWindowSurface() for Wayland failed: {} (0x{:X})'' [err, err],
             WlEglWindowDestroy f w]))"
proof (intro conjI impI)
  assume "LoadModule e p tr = (False, p', tr')"
  then show "\<exists>pre fmt. tr' = pre @ [ConsoleError fmt [WAYLAND_EGL_MODNAME]]
          \<and> (fmt = ''Failed to load %s.''
               \<or> fmt = ''Failed to load one or more functions from %s.'')"
    by (auto simp: LoadModule_def Let_def split: if_splits)
next
  assume l: "LoadModule e p tr = (False, p', tr')"
  from LoadModule_frame [OF l] show "filter error_sink (added tr tr') = []"
    by auto
next
  assume "GetPlatformDisplay e attribs error q tq = (EGL_NO_DISPLAY, q', tq')"
  then show "(\<exists>pre. tq' = pre @ [ErrorSetExtensionMissing error
                             ''EGL_KHR_platform_wayland'' ''EGL_EXT_platform_wayland''])
      \<or> (\<exists>pre err. tq' = pre @
            [EglGetError err,
             ErrorSetStringFmt error
               ''eglGetPlatformDisplay() for Wayland failed: {} (0x{:X})'' [err, err]])"
    by (auto simp: GetPlatformDisplay_def CheckExtension_def Let_def split: if_splits)
next
  assume "CreatePlatformSurface e config sattribs serror r ts = (EGL_NO_SURFACE, r', ts')"
  then show "(\<exists>pre f s x y. ts' = pre @
            [WlEglWindowCreate f s x y 0,
             ErrorSetStringView serror ''wl_egl_window_create() failed''])
      \<or> (\<exists>pre err f w. ts' = pre @
            [EglGetError err,
             ErrorSetStringFmt serror
               ''eglCreatePlatformWindowSurface() for Wayland failed: {} (0x{:X})'' [err, err],
             WlEglWindowDestroy f w])"
    by (auto simp: CreatePlatformSurface_def destroy_existing_window_def Let_def EGL_NO_SURFACE_def
             split: if_splits)
qed

theorem failures_are_reported_witness:
  "LoadModule env_nolib (GLContextEGLWayland_ctor wi0 (0, 0, 0)) [] =
     (False, GLContextEGLWayland_ctor wi0 (0, 0, 0),
      [Dlopen ''libwayland-egl.so.1'' [RTLD_NOW, RTLD_GLOBAL] 0,
       ConsoleError ''Failed to load %s.'' [''libwayland-egl.so.1'']])
   \<and> GetPlatformDisplay env_nodisplay 0 13 p_loaded [] =
       (EGL_NO_DISPLAY, p_loaded,
        [EglGetPlatformDisplay 0x31D8 1 0 EGL_NO_DISPLAY, EglGetError 0x3003,
         ErrorSetStringFmt 13 ''eglGetPlatformDisplay() for Wayland failed: {} (0x{:X})''
           [0x3003, 0x3003]])
   \<and> CreatePlatformSurface (env_ok\<lparr>ext_wl_egl_window_create := (\<lambda>tr f s w h. 0)\<rparr>) 11 0 13 p_loaded [] =
       (EGL_NO_SURFACE, p_loaded,
        [WlEglWindowCreate 201 2 640 480 0,
         ErrorSetStringView 13 ''wl_egl_window_create() failed''])"
proof -
  have l: "LoadModule env_nolib (GLContextEGLWayland_ctor wi0 (0, 0, 0)) [] =
     (False, GLContextEGLWayland_ctor wi0 (0, 0, 0),
      [Dlopen ''libwayland-egl.so.1'' [RTLD_NOW, RTLD_GLOBAL] 0,
       ConsoleError ''Failed to load %s.'' [''libwayland-egl.so.1'']])"
    by (simp add: concrete_defs)
  have g: "GetPlatformDisplay env_nodisplay 0 13 p_loaded [] =
       (EGL_NO_DISPLAY, p_loaded,
        [EglGetPlatformDisplay 0x31D8 1 0 EGL_NO_DISPLAY, EglGetError 0x3003,
         ErrorSetStringFmt 13 ''eglGetPlatformDisplay() for Wayland failed: {} (0x{:X})''
           [0x3003, 0x3003]])"
    by (simp add: concrete_defs)
  have s: "CreatePlatformSurface (env_ok\<lparr>ext_wl_egl_window_create := (\<lambda>tr f s w h. 0)\<rparr>) 11 0 13 p_loaded [] =
       (EGL_NO_SURFACE, p_loaded,
        [WlEglWindowCreate 201 2 640 480 0,
         ErrorSetStringView 13 ''wl_egl_window_create() failed''])"
    by (simp add: concrete_defs)
  from failures_are_reported [where e = env_nolib and p = "GLContextEGLWayland_ctor wi0 (0, 0, 0)"
      and tr = "[]"] l
    failures_are_reported [where e = env_nodisplay and attribs = 0 and error = 13 and q = p_loaded
      and tq = "[]"] g
    failures_are_reported [where e = "env_ok\<lparr>ext_wl_egl_window_create := (\<lambda>tr f s w h. 0)\<rparr>"
      and config = 11 and sattribs = 0 and serror = 13 and r = p_loaded and ts = "[]"] s
  show ?thesis by simp
qed

text \<open>
  C9, as stated, asks for the error sink in all four categories. With a library that
  cannot be opened, \<open>Create\<close> fails and no call of the whole run has written to the
  error object.
\<close>

theorem error_sink_counterexample:
  "\<not> fst (LoadModule env_nolib (GLContextEGLWayland_ctor wi0 (0, 0, 0)) [])
   \<and> fst (Create env_nolib wi0 (0, 0, 0) [3, 2] 13 []) = None
   \<and> filter error_sink (snd (Create env_nolib wi0 (0, 0, 0) [3, 2] 13 [])) = []"
  by (simp add: concrete_defs)

subsection \<open>The life cycle\<close>

text \<open>The factories only hand out providers that the life cycle reaches.\<close>

lemma reachable_events:
  assumes "reachable e p tr ph"
  shows "reachable e p (tr @ evs) ph"
  using r_base [OF assms, where wi = "m_wi p" and d = "m_display p" and s = "m_surface p"
      and c = "m_context p" and v = "m_version p" and b = "m_supports_surfaceless p" and evs = evs]
  by simp

lemma reachable_base_fields:
  assumes "reachable e p tr ph"
  shows "reachable e (p\<lparr>m_display := d\<rparr>) tr ph"
    and "reachable e (p\<lparr>m_display := d, m_supports_surfaceless := b\<rparr>) tr ph"
    and "reachable e (p\<lparr>m_surface := s, m_context := c, m_version := v\<rparr>) tr ph"
  using r_base [OF assms, where wi = "m_wi p" and d = d and s = "m_surface p"
      and c = "m_context p" and v = "m_version p" and b = "m_supports_surfaceless p" and evs = "[]"]
    r_base [OF assms, where wi = "m_wi p" and d = d and s = "m_surface p"
      and c = "m_context p" and v = "m_version p" and b = b and evs = "[]"]
    r_base [OF assms, where wi = "m_wi p" and d = "m_display p" and s = s
      and c = c and v = v and b = "m_supports_surfaceless p" and evs = "[]"]
  by simp_all

lemma CreateContextAndSurface_reachable:
  assumes "reachable e p tr Loaded"
    and "CreateContextAndSurface e version share_context make_current p tr = (ok, p', tr')"
  shows "reachable e p' tr' Loaded"
proof -
  let ?tr1 = "tr @ [BaseCreateContextAndSurface (m_display p) version share_context make_current]"
  have r1: "reachable e p ?tr1 Loaded"
    by (rule reachable_events [OF assms(1)])
  show ?thesis
  proof (cases "ext_base_create_context e ?tr1")
    case None
    with assms(2) r1 show ?thesis
      by (auto simp: CreateContextAndSurface_def Let_def)
  next
    case (Some t)
    obtain config ctx attribs error where t: "t = (config, ctx, attribs, error)"
      by (cases t)
    obtain sf p1 tr2 where s: "CreatePlatformSurface e config attribs error p ?tr1 = (sf, p1, tr2)"
      by (cases "CreatePlatformSurface e config attribs error p ?tr1")
    have r2: "reachable e p1 tr2 Loaded"
      by (rule r_surface [OF r1 s])
    from assms(2) Some t s r2 reachable_base_fields(3) [OF r2, where s = sf and c = ctx and v = version]
    show ?thesis
      by (auto simp: CreateContextAndSurface_def Let_def split: if_splits)
  qed
qed

lemma Initialize_reachable:
  assumes "reachable e p tr Loaded"
    and "Initialize e versions_to_try error p tr = (ok, p', tr')"
  shows "reachable e p' tr' Loaded"
proof -
  obtain dpy p1 tr1 where
    g: "GetPlatformDisplay e (ext_base_display_attribs e tr) error p tr = (dpy, p1, tr1)"
    by (cases "GetPlatformDisplay e (ext_base_display_attribs e tr) error p tr")
  have r1: "reachable e p1 tr1 Loaded"
    by (rule r_display [OF assms(1) g])
  have r2: "reachable e (p1\<lparr>m_display := dpy\<rparr>) tr1 Loaded"
    by (rule reachable_base_fields(1) [OF r1])
  show ?thesis
  proof (cases "dpy = EGL_NO_DISPLAY")
    case True
    with assms(2) g r1 show ?thesis by (simp add: Initialize_def)
  next
    case False
    show ?thesis
    proof (cases "ext_base_select_version e tr1 versions_to_try")
      case None
      with False assms(2) g r2 show ?thesis by (simp add: Initialize_def)
    next
      case (Some v)
      with False assms(2) g
      have "CreateContextAndSurface e v 0 True (p1\<lparr>m_display := dpy\<rparr>) tr1 = (ok, p', tr')"
        by (simp add: Initialize_def)
      from CreateContextAndSurface_reachable [OF r2 this] show ?thesis .
    qed
  qed
qed

lemma Create_reachable:
  assumes "Create e wi fns versions_to_try error tr = (Some p, tr')"
  shows "reachable e p tr' Loaded"
proof -
  obtain ok c1 tr1 where l: "LoadModule e (GLContextEGLWayland_ctor wi fns) tr = (ok, c1, tr1)"
    by (cases "LoadModule e (GLContextEGLWayland_ctor wi fns) tr")
  obtain ok2 c2 tr2 where i: "Initialize e versions_to_try error c1 tr1 = (ok2, c2, tr2)"
    by (cases "Initialize e versions_to_try error c1 tr1")
  from assms l i have ok: "ok" "ok2" and p: "p = c2" "tr' = tr2 @ [ConsoleWriteLn ''EGL Platform: Wayland'']"
    by (auto simp: Create_def split: if_splits bool.splits)
  from r_load [OF r_ctor l] ok have "reachable e c1 tr1 Loaded" by simp
  from Initialize_reachable [OF this i] have "reachable e c2 tr2 Loaded" .
  from reachable_events [OF this] p show ?thesis by simp
qed

lemma CreateSharedContext_reachable:
  assumes "CreateSharedContext e this wi fns tr = (Some p, tr')"
  shows "reachable e p tr' Loaded"
proof -
  obtain ok c1 tr1 where l: "LoadModule e (shared_context_init this wi fns) tr = (ok, c1, tr1)"
    by (cases "LoadModule e (shared_context_init this wi fns) tr")
  obtain ok2 c2 tr2 where
    i: "CreateContextAndSurface e (m_version this) (m_context this) False c1 tr1 = (ok2, c2, tr2)"
    by (cases "CreateContextAndSurface e (m_version this) (m_context this) False c1 tr1")
  from assms l i have ok: "ok" "ok2" and p: "p = c2" "tr' = tr2"
    by (auto simp: CreateSharedContext_def split: if_splits bool.splits)
  have "reachable e (shared_context_init this wi fns) tr Constructed"
    unfolding shared_context_init_def
    by (rule reachable_base_fields(2) [OF r_ctor])
  from r_load [OF this l] ok have "reachable e c1 tr1 Loaded" by simp
  from CreateContextAndSurface_reachable [OF this i] p show ?thesis by simp
qed

lemma reachable_inv:
  "reachable e p tr ph \<Longrightarrow>
     (ph = Loaded \<longrightarrow> m_wl_module p \<noteq> 0 \<and> m_wl_egl_window_create p \<noteq> 0
        \<and> m_wl_egl_window_destroy p \<noteq> 0 \<and> m_wl_egl_window_resize p \<noteq> 0)
     \<and> (ph \<noteq> Loaded \<longrightarrow> m_wl_window p = 0)"
proof (induction rule: reachable.induct)
  case (r_ctor wi fns tr)
  show ?case by (simp add: GLContextEGLWayland_ctor_def)
next
  case (r_base p tr ph wi d s c v b evs)
  then show ?case by simp
next
  case (r_load p tr ok p' tr')
  from LoadModule_first [OF r_load.hyps(2)] LoadModule_frame [OF r_load.hyps(2)] r_load.IH
  show ?case by auto
next
  case (r_display p tr attribs error dpy p' tr')
  then show ?case
    by (auto simp: GetPlatformDisplay_def Let_def split: prod.splits bool.splits if_splits)
next
  case (r_surface p tr config attribs error sf p' tr')
  from CreatePlatformSurface_frame [OF r_surface.hyps(2)]
  have p': "p' = p\<lparr>m_wl_window := m_wl_window p'\<rparr>" by simp
  have "m_wl_module p' = m_wl_module p" "m_wl_egl_window_create p' = m_wl_egl_window_create p"
      "m_wl_egl_window_destroy p' = m_wl_egl_window_destroy p"
      "m_wl_egl_window_resize p' = m_wl_egl_window_resize p"
    by (subst p', simp)+
  with r_surface.IH show ?case by simp
next
  case (r_resize p tr w h p' tr')
  then show ?case
    by (auto simp: ResizeSurface_def GLContextEGL_ResizeSurface_def Let_def)
qed

text \<open>
  C10. In every state a provider reaches, a non-null shim window handle comes with a
  non-null library handle and non-null create, destroy and resize pointers. Hence
  neither the destructor nor \<open>ResizeSurface\<close>, run in such a state, makes a call
  through a null function pointer.
\<close>

theorem shim_handle_implies_resolved:
  assumes "reachable e p tr ph"
  shows "(m_wl_window p \<noteq> 0 \<longrightarrow>
            m_wl_module p \<noteq> 0 \<and> m_wl_egl_window_create p \<noteq> 0
            \<and> m_wl_egl_window_destroy p \<noteq> 0 \<and> m_wl_egl_window_resize p \<noteq> 0)
       \<and> filter null_fn_call (added tr (GLContextEGLWayland_dtor p tr)) = []
       \<and> filter null_fn_call (added tr (snd (ResizeSurface e w h p tr))) = []"
proof -
  from reachable_inv [OF assms]
  have inv: "m_wl_window p \<noteq> 0 \<longrightarrow>
            m_wl_module p \<noteq> 0 \<and> m_wl_egl_window_create p \<noteq> 0
            \<and> m_wl_egl_window_destroy p \<noteq> 0 \<and> m_wl_egl_window_resize p \<noteq> 0"
    by (cases ph) auto
  then show ?thesis
    by (auto simp: GLContextEGLWayland_dtor_def ResizeSurface_def GLContextEGL_ResizeSurface_def
                   Let_def)
qed

theorem shim_handle_implies_resolved_witness:
  "reachable env_ok
     (p_loaded\<lparr>m_display := 500, m_surface := 400, m_context := 12, m_version := 3,
                m_wl_window := 306\<rparr>)
     [Dlopen ''libwayland-egl.so.1'' [RTLD_NOW, RTLD_GLOBAL] 100,
      Dlsym 100 ''wl_egl_window_create'' 201,
      Dlsym 100 ''wl_egl_window_destroy'' 202,
      Dlsym 100 ''wl_egl_window_resize'' 203,
      EglGetPlatformDisplay 12760 1 0 500,
      BaseCreateContextAndSurface 500 3 0 True,
      WlEglWindowCreate 201 2 640 480 306,
      EglCreatePlatformWindowSurface 500 11 306 0 400,
      ConsoleWriteLn ''EGL Platform: Wayland''] Loaded
   \<and> m_wl_window (p_loaded\<lparr>m_display := 500, m_surface := 400, m_context := 12, m_version := 3,
                m_wl_window := 306\<rparr>) \<noteq> 0
   \<and> m_wl_module p_loaded \<noteq> 0 \<and> m_wl_egl_window_create p_loaded \<noteq> 0
   \<and> m_wl_egl_window_destroy p_loaded \<noteq> 0 \<and> m_wl_egl_window_resize p_loaded \<noteq> 0"
proof -
  have c: "Create env_ok wi0 (0, 0, 0) [3, 2] 13 [] =
    (Some (p_loaded\<lparr>m_display := 500, m_surface := 400, m_context := 12, m_version := 3,
                m_wl_window := 306\<rparr>),
     [Dlopen ''libwayland-egl.so.1'' [RTLD_NOW, RTLD_GLOBAL] 100,
      Dlsym 100 ''wl_egl_window_create'' 201,
      Dlsym 100 ''wl_egl_window_destroy'' 202,
      Dlsym 100 ''wl_egl_window_resize'' 203,
      EglGetPlatformDisplay 12760 1 0 500,
      BaseCreateContextAndSurface 500 3 0 True,
      WlEglWindowCreate 201 2 640 480 306,
      EglCreatePlatformWindowSurface 500 11 306 0 400,
      ConsoleWriteLn ''EGL Platform: Wayland''])"
    by (simp add: concrete_defs)
  note r = Create_reachable [OF c]
  from shim_handle_implies_resolved [OF r, of 800 600] r
  show ?thesis by (simp add: p_loaded_def GLContextEGLWayland_ctor_def)
qed

end
